theory Spec2Isabelle
  imports Complex_Main "HOL-Library.Word"
begin

section \<open>Python values used by the three model classes\<close>

text \<open>
  The repository holds three classes, \<^verbatim>\<open>NNDual\<close> (dual_nn.py), \<^verbatim>\<open>RNNDual\<close>
  (dual_rnn.py) and \<^verbatim>\<open>RNNClassifier\<close> (single_rnn.py).  Their methods are embedded
  below as HOL functions.  Python integers are \<open>int\<close>, lengths are \<open>nat\<close>, the entries of
  \<^verbatim>\<open>np.int32\<close> arrays are \<open>32 word\<close>, loss values and probabilities are \<open>real\<close>, and every
  exception the code can raise is a value of \<open>error\<close>.
\<close>

datatype error = ValueError | ZeroDivisionError | IndexError | KeyError | UnicodeError

datatype level = L0 | L1 | L2

type_synonym int32 = "32 word"

type_synonym corpus = "(string list \<times> string list) list"

text \<open>\<^verbatim>\<open>range(start, stop, step)\<close> of Python 2: a list; a zero step raises ValueError.\<close>

definition py_range :: "int \<Rightarrow> int \<Rightarrow> int \<Rightarrow> error + int list" where
  "py_range start stop step =
     (if step = 0 then Inl ValueError
      else if 0 < step then
        Inr (map (\<lambda>k. start + int k * step) [0..<nat ((stop - start + step - 1) div step)])
      else
        Inr (map (\<lambda>k. start + int k * step) [0..<nat ((start - stop - step - 1) div (- step))]))"

text \<open>A slice bound of Python: a negative bound counts from the end, and bounds are clamped.\<close>

definition clamp_index :: "nat \<Rightarrow> int \<Rightarrow> nat" where
  "clamp_index n i = (if i < 0 then nat (int n + i) else min n (nat i))"

text \<open>\<^verbatim>\<open>xs[a:b]\<close>; \<^verbatim>\<open>xs[:b]\<close> is \<open>py_slice 0 b xs\<close>.\<close>

definition py_slice :: "int \<Rightarrow> int \<Rightarrow> 'a list \<Rightarrow> 'a list" where
  "py_slice a b xs =
     (let i = clamp_index (length xs) a; j = clamp_index (length xs) b
      in take (j - i) (drop i xs))"

section \<open>The TensorFlow session\<close>

text \<open>
  The numeric engine is outside the repository.  A graph is the pair of operations the
  methods fetch through \<^verbatim>\<open>session.run\<close>: an optimiser step for one level, which returns the
  combined loss of the fed minibatch and the updated parameters, and a probability head,
  which only reads the parameters.  \<open>'p\<close> is the type of the model parameters, \<open>'b\<close> the
  type of a fed minibatch and \<open>'f\<close> the type of a fed single input.
\<close>

datatype head = Level_head level | Selector_head

record ('p, 'b, 'f) graph =
  train_op :: "level \<Rightarrow> 'b \<Rightarrow> 'p \<Rightarrow> real \<times> 'p"
  probs_op :: "head \<Rightarrow> 'f \<Rightarrow> 'p \<Rightarrow> real list"

text \<open>
  A session holds the parameters.  Three logs record what a call did: the optimiser steps
  it ran (which train operation, on which index range), the summands added to
  \<^verbatim>\<open>curr_loss\<close> at each visited minibatch position (the position's end index and the loss
  terms), and the average losses it printed.
\<close>

record ('p, 'k) session =
  params :: 'p
  steps :: "('k \<times> int \<times> int) list"
  terms :: "(int \<times> real list) list"
  printed :: "real list"

section \<open>The dual models: fields of the object\<close>

text \<open>The fields of \<^verbatim>\<open>NNDual\<close> that \<^verbatim>\<open>fit\<close> and \<^verbatim>\<open>score\<close> read.\<close>

record nn_dual =
  epochs :: int
  bsz :: int
  commands :: "level \<Rightarrow> string list list"
  word2id :: "string \<rightharpoonup> nat"
  train_x :: "level \<Rightarrow> int32 list list"
  train_y :: "level \<Rightarrow> int32 list"

text \<open>\<^verbatim>\<open>RNNDual\<close> has the same fields and two more.\<close>

record rnn_dual = nn_dual +
  max_len :: nat
  lengths :: "level \<Rightarrow> nat list"

section \<open>NNDual.fit\<close>

text \<open>
  One of the three guarded \<^verbatim>\<open>session.run\<close> calls of the loop body.  \<open>prev\<close> is the value the
  loss variable holds when the guard is false.
\<close>

definition nn_level_step ::
  "('p, int32 list list \<times> int32 list, 'f) graph \<Rightarrow> 'm nn_dual_scheme \<Rightarrow> level \<Rightarrow> int \<Rightarrow> int \<Rightarrow>
   real \<Rightarrow> ('p, level) session \<Rightarrow> real \<times> ('p, level) session" where
  "nn_level_step g m k start end prev s =
     (if end < int (length (train_x m k)) then
        (let (l, p') = train_op g k (py_slice start end (train_x m k),
                                     py_slice start end (train_y m k)) (params s)
         in (l, s\<lparr>params := p', steps := steps s @ [(k, start, end)]\<rparr>))
      else (prev, s))"

text \<open>The inner loop over the zipped (start, end) pairs; the three losses are reset to 0 at
  every position.\<close>

fun nn_sweep ::
  "('p, int32 list list \<times> int32 list, 'f) graph \<Rightarrow> 'm nn_dual_scheme \<Rightarrow> (int \<times> int) list \<Rightarrow>
   real \<Rightarrow> real \<Rightarrow> ('p, level) session \<Rightarrow> real \<times> real \<times> ('p, level) session" where
  "nn_sweep g m [] curr_loss batches s = (curr_loss, batches, s)"
| "nn_sweep g m ((start, end) # ps) curr_loss batches s =
     (let (l0_loss, s0) = nn_level_step g m L0 start end 0 s;
          (l1_loss, s1) = nn_level_step g m L1 start end 0 s0;
          (l2_loss, s2) = nn_level_step g m L2 start end 0 s1
      in nn_sweep g m ps (curr_loss + (l0_loss + l1_loss + l2_loss)) (batches + 1)
           (s2\<lparr>terms := terms s2 @ [(end, [l0_loss, l1_loss, l2_loss])]\<rparr>))"

text \<open>The zip of the two ranges, which are taken over the first \<^verbatim>\<open>chunk_size\<close> rows of L0.\<close>

definition positions :: "int \<Rightarrow> int \<Rightarrow> error + (int \<times> int) list" where
  "positions n b =
     (case py_range 0 (n - b) b of
        Inl e \<Rightarrow> Inl e
      | Inr starts \<Rightarrow>
          (case py_range b n b of
             Inl e \<Rightarrow> Inl e
           | Inr ends \<Rightarrow> Inr (zip starts ends)))"

definition nn_positions :: "'m nn_dual_scheme \<Rightarrow> int \<Rightarrow> error + (int \<times> int) list" where
  "nn_positions m chunk_size =
     positions (int (length (py_slice 0 chunk_size (train_x m L0)))) (bsz m)"

text \<open>One epoch: the sweep, then the printed average, whose division raises when no
  position was visited (both operands are then the Python floats 0.0).\<close>

definition nn_epoch ::
  "('p, int32 list list \<times> int32 list, 'f) graph \<Rightarrow> 'm nn_dual_scheme \<Rightarrow> int \<Rightarrow>
   ('p, level) session \<Rightarrow> (error + unit) \<times> ('p, level) session" where
  "nn_epoch g m chunk_size s =
     (case nn_positions m chunk_size of
        Inl e \<Rightarrow> (Inl e, s)
      | Inr ps \<Rightarrow>
          (let (curr_loss, batches, s') = nn_sweep g m ps 0 0 s
           in if batches = 0 then (Inl ZeroDivisionError, s')
              else (Inr (), s'\<lparr>printed := printed s' @ [curr_loss / batches]\<rparr>)))"

fun nn_epochs ::
  "('p, int32 list list \<times> int32 list, 'f) graph \<Rightarrow> 'm nn_dual_scheme \<Rightarrow> int \<Rightarrow> nat \<Rightarrow>
   ('p, level) session \<Rightarrow> (error + unit) \<times> ('p, level) session" where
  "nn_epochs g m chunk_size 0 s = (Inr (), s)"
| "nn_epochs g m chunk_size (Suc n) s =
     (case nn_epoch g m chunk_size s of
        (Inl e, s') \<Rightarrow> (Inl e, s')
      | (Inr u, s') \<Rightarrow> nn_epochs g m chunk_size n s')"

text \<open>\<^verbatim>\<open>for e in range(self.epochs)\<close> runs \<open>nat (epochs m)\<close> times.\<close>

definition nn_fit ::
  "('p, int32 list list \<times> int32 list, 'f) graph \<Rightarrow> 'm nn_dual_scheme \<Rightarrow> int \<Rightarrow>
   ('p, level) session \<Rightarrow> (error + unit) \<times> ('p, level) session" where
  "nn_fit g m chunk_size s = nn_epochs g m chunk_size (nat (epochs m)) s"

section \<open>RNNDual.fit\<close>

text \<open>The guarded step of the recurrent variant also feeds the true lengths of the rows.\<close>

definition rnn_level_step ::
  "('p, int32 list list \<times> nat list \<times> int32 list, 'f) graph \<Rightarrow> 'm rnn_dual_scheme \<Rightarrow> level \<Rightarrow>
   int \<Rightarrow> int \<Rightarrow> real \<Rightarrow> ('p, level) session \<Rightarrow> real \<times> ('p, level) session" where
  "rnn_level_step g m k start end prev s =
     (if end < int (length (train_x m k)) then
        (let (l, p') = train_op g k (py_slice start end (train_x m k),
                                     py_slice start end (lengths m k),
                                     py_slice start end (train_y m k)) (params s)
         in (l, s\<lparr>params := p', steps := steps s @ [(k, start, end)]\<rparr>))
      else (prev, s))"

text \<open>Here the three loss variables are assigned 0 once, before the epoch loop, and are
  only overwritten by a step that runs: the sweep takes their current values and returns
  them.\<close>

fun rnn_sweep ::
  "('p, int32 list list \<times> nat list \<times> int32 list, 'f) graph \<Rightarrow> 'm rnn_dual_scheme \<Rightarrow>
   (int \<times> int) list \<Rightarrow> real \<times> real \<times> real \<Rightarrow> real \<Rightarrow> real \<Rightarrow> ('p, level) session \<Rightarrow>
   (real \<times> real \<times> real) \<times> real \<times> real \<times> ('p, level) session" where
  "rnn_sweep g m [] losses curr_loss batches s = (losses, curr_loss, batches, s)"
| "rnn_sweep g m ((start, end) # ps) (l0_prev, l1_prev, l2_prev) curr_loss batches s =
     (let (l0_loss, s0) = rnn_level_step g m L0 start end l0_prev s;
          (l1_loss, s1) = rnn_level_step g m L1 start end l1_prev s0;
          (l2_loss, s2) = rnn_level_step g m L2 start end l2_prev s1
      in rnn_sweep g m ps (l0_loss, l1_loss, l2_loss)
           (curr_loss + (l0_loss + l1_loss + l2_loss)) (batches + 1)
           (s2\<lparr>terms := terms s2 @ [(end, [l0_loss, l1_loss, l2_loss])]\<rparr>))"

text \<open>The ranges are taken over \<^verbatim>\<open>chunk_size\<close> itself.\<close>

definition rnn_positions :: "'m rnn_dual_scheme \<Rightarrow> int \<Rightarrow> error + (int \<times> int) list" where
  "rnn_positions m chunk_size = positions chunk_size (bsz m)"

definition rnn_epoch ::
  "('p, int32 list list \<times> nat list \<times> int32 list, 'f) graph \<Rightarrow> 'm rnn_dual_scheme \<Rightarrow> int \<Rightarrow>
   real \<times> real \<times> real \<Rightarrow> ('p, level) session \<Rightarrow>
   (error + real \<times> real \<times> real) \<times> ('p, level) session" where
  "rnn_epoch g m chunk_size losses s =
     (case rnn_positions m chunk_size of
        Inl e \<Rightarrow> (Inl e, s)
      | Inr ps \<Rightarrow>
          (let (losses', curr_loss, batches, s') = rnn_sweep g m ps losses 0 0 s
           in if batches = 0 then (Inl ZeroDivisionError, s')
              else (Inr losses', s'\<lparr>printed := printed s' @ [curr_loss / batches]\<rparr>)))"

fun rnn_epochs ::
  "('p, int32 list list \<times> nat list \<times> int32 list, 'f) graph \<Rightarrow> 'm rnn_dual_scheme \<Rightarrow> int \<Rightarrow>
   nat \<Rightarrow> real \<times> real \<times> real \<Rightarrow> ('p, level) session \<Rightarrow>
   (error + unit) \<times> ('p, level) session" where
  "rnn_epochs g m chunk_size 0 losses s = (Inr (), s)"
| "rnn_epochs g m chunk_size (Suc n) losses s =
     (case rnn_epoch g m chunk_size losses s of
        (Inl e, s') \<Rightarrow> (Inl e, s')
      | (Inr losses', s') \<Rightarrow> rnn_epochs g m chunk_size n losses' s')"

text \<open>\<^verbatim>\<open>np.zeros([self.bsz])\<close> on the first line raises ValueError for a negative size.\<close>

definition rnn_fit ::
  "('p, int32 list list \<times> nat list \<times> int32 list, 'f) graph \<Rightarrow> 'm rnn_dual_scheme \<Rightarrow> int \<Rightarrow>
   ('p, level) session \<Rightarrow> (error + unit) \<times> ('p, level) session" where
  "rnn_fit g m chunk_size s =
     (if bsz m < 0 then (Inl ValueError, s)
      else rnn_epochs g m chunk_size (nat (epochs m)) (0, 0, 0) s)"

section \<open>RNNClassifier.fit\<close>

record rnn_classifier =
  clf_epochs :: int
  clf_bsz :: int
  clf_commands :: "string list list"
  clf_word2id :: "string \<rightharpoonup> nat"
  clf_lengths :: "nat list"
  clf_train_x :: "int32 list list"
  clf_train_y :: "int32 list"

record ('p, 'b, 'f) clf_graph =
  clf_train_op :: "'b \<Rightarrow> 'p \<Rightarrow> real \<times> 'p"
  clf_probs_op :: "'f \<Rightarrow> 'p \<Rightarrow> real list"

text \<open>The single-level classifier runs its one train operation at every position.\<close>

fun clf_sweep ::
  "('p, int32 list list \<times> nat list \<times> int32 list, 'f) clf_graph \<Rightarrow> rnn_classifier \<Rightarrow>
   (int \<times> int) list \<Rightarrow> real \<Rightarrow> real \<Rightarrow> ('p, unit) session \<Rightarrow>
   real \<times> real \<times> ('p, unit) session" where
  "clf_sweep g m [] curr_loss batches s = (curr_loss, batches, s)"
| "clf_sweep g m ((start, end) # ps) curr_loss batches s =
     (let (loss, p') = clf_train_op g (py_slice start end (clf_train_x m),
                                       py_slice start end (clf_lengths m),
                                       py_slice start end (clf_train_y m)) (params s)
      in clf_sweep g m ps (curr_loss + loss) (batches + 1)
           (s\<lparr>params := p', steps := steps s @ [((), start, end)],
              terms := terms s @ [(end, [loss])]\<rparr>))"

definition clf_positions :: "rnn_classifier \<Rightarrow> int \<Rightarrow> error + (int \<times> int) list" where
  "clf_positions m chunk_size =
     positions (int (length (py_slice 0 chunk_size (clf_train_x m)))) (clf_bsz m)"

definition clf_epoch ::
  "('p, int32 list list \<times> nat list \<times> int32 list, 'f) clf_graph \<Rightarrow> rnn_classifier \<Rightarrow> int \<Rightarrow>
   ('p, unit) session \<Rightarrow> (error + unit) \<times> ('p, unit) session" where
  "clf_epoch g m chunk_size s =
     (case clf_positions m chunk_size of
        Inl e \<Rightarrow> (Inl e, s)
      | Inr ps \<Rightarrow>
          (let (curr_loss, batches, s') = clf_sweep g m ps 0 0 s
           in if batches = 0 then (Inl ZeroDivisionError, s')
              else (Inr (), s'\<lparr>printed := printed s' @ [curr_loss / batches]\<rparr>)))"

fun clf_epochs_loop ::
  "('p, int32 list list \<times> nat list \<times> int32 list, 'f) clf_graph \<Rightarrow> rnn_classifier \<Rightarrow> int \<Rightarrow>
   nat \<Rightarrow> ('p, unit) session \<Rightarrow> (error + unit) \<times> ('p, unit) session" where
  "clf_epochs_loop g m chunk_size 0 s = (Inr (), s)"
| "clf_epochs_loop g m chunk_size (Suc n) s =
     (case clf_epoch g m chunk_size s of
        (Inl e, s') \<Rightarrow> (Inl e, s')
      | (Inr u, s') \<Rightarrow> clf_epochs_loop g m chunk_size n s')"

definition clf_fit ::
  "('p, int32 list list \<times> nat list \<times> int32 list, 'f) clf_graph \<Rightarrow> rnn_classifier \<Rightarrow> int \<Rightarrow>
   ('p, unit) session \<Rightarrow> (error + unit) \<times> ('p, unit) session" where
  "clf_fit g m chunk_size s = clf_epochs_loop g m chunk_size (nat (clf_epochs m)) s"

section \<open>Reading the logs\<close>

text \<open>The optimiser steps of one train operation.\<close>

definition steps_for :: "'k \<Rightarrow> ('p, 'k) session \<Rightarrow> ('k \<times> int \<times> int) list" where
  "steps_for k s = filter (\<lambda>x. fst x = k) (steps s)"

text \<open>The summand of a level in a logged row, and the property that a row's summand is 0
  for every level whose data has run out at the row's end index.\<close>

fun loss_term :: "level \<Rightarrow> real list \<Rightarrow> real" where
  "loss_term L0 ts = ts ! 0"
| "loss_term L1 ts = ts ! 1"
| "loss_term L2 ts = ts ! 2"

definition exhausted_terms_zero :: "'m nn_dual_scheme \<Rightarrow> (int \<times> real list) list \<Rightarrow> bool" where
  "exhausted_terms_zero m rs =
     (\<forall>(en, ts) \<in> set rs. \<forall>k. int (length (train_x m k)) \<le> en \<longrightarrow> loss_term k ts = 0)"

section \<open>Vocabulary\<close>

definition PAD :: string where "PAD = ''<<PAD>>''"
definition UNK :: string where "UNK = ''<<UNK>>''"
definition PAD_ID :: nat where "PAD_ID = 0"
definition UNK_ID :: nat where "UNK_ID = 1"

text \<open>
  A Python \<^verbatim>\<open>set\<close> is kept as the list of its elements in the order they were first
  added; \<^verbatim>\<open>vocab.add(word)\<close> is \<open>set_add\<close>.  The order in which \<^verbatim>\<open>list(vocab)\<close> lists
  the set is not fixed by Python: it is the parameter \<open>listing\<close> of the functions below,
  of which the properties only assume that it lists every element once.
\<close>

definition set_add :: "'a \<Rightarrow> 'a list \<Rightarrow> 'a list" where
  "set_add w vocab = (if w \<in> set vocab then vocab else vocab @ [w])"

definition lists_each_once :: "('a list \<Rightarrow> 'a list) \<Rightarrow> 'a list \<Rightarrow> bool" where
  "lists_each_once listing vocab \<longleftrightarrow>
     distinct (listing vocab) \<and> set (listing vocab) = set vocab"

text \<open>The two inner loops of \<^verbatim>\<open>build_vocabulary\<close> for one corpus.\<close>

definition add_corpus :: "corpus \<Rightarrow> string list \<Rightarrow> string list" where
  "add_corpus pc vocab = fold (\<lambda>(n, _) v. fold set_add n v) pc vocab"

text \<open>
  The outer loop runs over the keys of \<^verbatim>\<open>lvl_dict\<close>.  The order of the keys only
  changes the order of insertion, which \<open>listing\<close> hides.
\<close>

definition collect_vocab :: "(level \<Rightarrow> corpus) \<Rightarrow> string list" where
  "collect_vocab pc = add_corpus (pc L2) (add_corpus (pc L1) (add_corpus (pc L0) []))"

text \<open>
  The dict comprehension \<^verbatim>\<open>{id2word[i]: i for i in range(len(id2word))}\<close>, and with
  \<^verbatim>\<open>enumerate\<close> for the labels: the items are stored in order, so a later index
  replaces an earlier one under the same key.
\<close>

fun enum_dict :: "'a list \<Rightarrow> nat \<Rightarrow> ('a \<rightharpoonup> nat) \<Rightarrow> ('a \<rightharpoonup> nat)" where
  "enum_dict [] i d = d"
| "enum_dict (w # ws) i d = enum_dict ws (Suc i) (d(w \<mapsto> i))"

text \<open>\<^verbatim>\<open>len(d)\<close> and \<^verbatim>\<open>d.get(k, default)\<close> of a dict.\<close>

definition dict_len :: "('a \<rightharpoonup> 'b) \<Rightarrow> nat" where
  "dict_len d = card (dom d)"

definition dict_get :: "('a \<rightharpoonup> 'b) \<Rightarrow> 'a \<Rightarrow> 'b \<Rightarrow> 'b" where
  "dict_get d k dflt = (case d k of None \<Rightarrow> dflt | Some v \<Rightarrow> v)"

text \<open>\<^verbatim>\<open>NNDual.build_vocabulary\<close>: the pair (word2id, id2word).\<close>

definition build_vocabulary ::
  "(string list \<Rightarrow> string list) \<Rightarrow> (level \<Rightarrow> corpus) \<Rightarrow> (string \<rightharpoonup> nat) \<times> string list" where
  "build_vocabulary listing pc =
     (let vocab = collect_vocab pc;
          id2word = [PAD, UNK] @ listing vocab;
          w2i = enum_dict id2word 0 Map.empty
      in (w2i, id2word))"

text \<open>\<^verbatim>\<open>RNNDual.build_vocabulary\<close> also returns the longest source length and the source
  lengths of every level.\<close>

definition longest :: "corpus \<Rightarrow> nat \<Rightarrow> nat" where
  "longest pc max_length =
     fold (\<lambda>(n, _) m. if length n > m then length n else m) pc max_length"

definition rnn_build_vocabulary ::
  "(string list \<Rightarrow> string list) \<Rightarrow> (level \<Rightarrow> corpus) \<Rightarrow>
   (string \<rightharpoonup> nat) \<times> string list \<times> nat \<times> (level \<Rightarrow> nat list)" where
  "rnn_build_vocabulary listing pc =
     (let vocab = collect_vocab pc;
          max_length = longest (pc L2) (longest (pc L1) (longest (pc L0) 0));
          lens = (\<lambda>lvl. map (\<lambda>(n, _). length n) (pc lvl));
          id2word = [PAD, UNK] @ listing vocab;
          w2i = enum_dict id2word 0 Map.empty
      in (w2i, id2word, max_length, lens))"

text \<open>\<^verbatim>\<open>RNNClassifier.build_vocabulary\<close>, over the one corpus of the classifier.\<close>

definition clf_build_vocabulary ::
  "(string list \<Rightarrow> string list) \<Rightarrow> corpus \<Rightarrow> (string \<rightharpoonup> nat) \<times> string list" where
  "clf_build_vocabulary listing pc =
     (let vocab = add_corpus pc [];
          id2word = [PAD, UNK] @ listing vocab;
          w2i = enum_dict id2word 0 Map.empty
      in (w2i, id2word))"

text \<open>All source tokens of the three corpora, with repetitions.\<close>

definition source_words :: "(level \<Rightarrow> corpus) \<Rightarrow> string list" where
  "source_words pc = concat (map fst (pc L0 @ pc L1 @ pc L2))"

section \<open>Vectorization\<close>

text \<open>\<^verbatim>\<open>" ".join(x)\<close>\<close>

fun join :: "string list \<Rightarrow> string" where
  "join [] = []"
| "join [x] = x"
| "join (x # y # ys) = x @ '' '' @ join (y # ys)"

text \<open>The label dict of a level: \<^verbatim>\<open>{" ".join(x): i for (i, x) in enumerate(commands)}\<close>.\<close>

definition labels_of :: "string list list \<Rightarrow> (string \<rightharpoonup> nat)" where
  "labels_of cmds = enum_dict (map join cmds) 0 Map.empty"

text \<open>
  The bag-of-words loop \<^verbatim>\<open>for w in nl: nvec[word2id.get(w, UNK_ID)] += 1\<close> on an int32
  array: the addition wraps at 32 bits, an index beyond the array raises IndexError.
\<close>

fun bow :: "(string \<rightharpoonup> nat) \<Rightarrow> string list \<Rightarrow> int32 list \<Rightarrow> error + int32 list" where
  "bow w2i [] nvec = Inr nvec"
| "bow w2i (w # ws) nvec =
     (let i = dict_get w2i w UNK_ID
      in if i < length nvec then bow w2i ws (nvec[i := nvec ! i + 1]) else Inl IndexError)"

text \<open>The body of the loop over one corpus in \<^verbatim>\<open>NNDual.vectorize\<close>: the label is looked
  up first (KeyError when the target is not a command of the level).\<close>

definition nn_vectorize_entry ::
  "(string \<rightharpoonup> nat) \<Rightarrow> (string \<rightharpoonup> nat) \<Rightarrow> string list \<times> string list \<Rightarrow>
   error + int32 list \<times> int32" where
  "nn_vectorize_entry w2i labels e =
     (case e of (nl, ml) \<Rightarrow>
        (case labels (join ml) of
           None \<Rightarrow> Inl KeyError
         | Some mlab \<Rightarrow>
             (case bow w2i nl (replicate (dict_len w2i) 0) of
                Inl err \<Rightarrow> Inl err
              | Inr nvec \<Rightarrow> Inr (nvec, of_nat mlab))))"

text \<open>The loop over the entries of one corpus; it stops at the first exception.\<close>

fun vectorize_entries ::
  "('e \<Rightarrow> error + 'a \<times> 'b) \<Rightarrow> 'e list \<Rightarrow> error + 'a list \<times> 'b list" where
  "vectorize_entries f [] = Inr ([], [])"
| "vectorize_entries f (e # es) =
     (case f e of
        Inl err \<Rightarrow> Inl err
      | Inr (x, y) \<Rightarrow>
          (case vectorize_entries f es of
             Inl err \<Rightarrow> Inl err
           | Inr (xs, ys) \<Rightarrow> Inr (x # xs, y # ys)))"

text \<open>The loop over the three levels, shared by both dual classes.\<close>

definition vectorize_levels ::
  "(level \<Rightarrow> string list \<times> string list \<Rightarrow> error + int32 list \<times> int32) \<Rightarrow> (level \<Rightarrow> corpus) \<Rightarrow>
   error + (level \<Rightarrow> int32 list list) \<times> (level \<Rightarrow> int32 list)" where
  "vectorize_levels f pc =
     (case vectorize_entries (f L0) (pc L0) of
        Inl err \<Rightarrow> Inl err
      | Inr (x0, y0) \<Rightarrow>
          (case vectorize_entries (f L1) (pc L1) of
             Inl err \<Rightarrow> Inl err
           | Inr (x1, y1) \<Rightarrow>
               (case vectorize_entries (f L2) (pc L2) of
                  Inl err \<Rightarrow> Inl err
                | Inr (x2, y2) \<Rightarrow>
                    Inr (\<lambda>lvl. case lvl of L0 \<Rightarrow> x0 | L1 \<Rightarrow> x1 | L2 \<Rightarrow> x2,
                         \<lambda>lvl. case lvl of L0 \<Rightarrow> y0 | L1 \<Rightarrow> y1 | L2 \<Rightarrow> y2))))"

text \<open>\<^verbatim>\<open>NNDual.vectorize\<close>\<close>

definition nn_vectorize ::
  "(string \<rightharpoonup> nat) \<Rightarrow> (level \<Rightarrow> string \<rightharpoonup> nat) \<Rightarrow> (level \<Rightarrow> corpus) \<Rightarrow>
   error + (level \<Rightarrow> int32 list list) \<times> (level \<Rightarrow> int32 list)" where
  "nn_vectorize w2i labels pc = vectorize_levels (\<lambda>lvl. nn_vectorize_entry w2i (labels lvl)) pc"

text \<open>
  The sequence loop \<^verbatim>\<open>for i in range(len(nl)): nvec[i] = word2id.get(nl[i], UNK_ID)\<close>,
  started at index \<open>i\<close>; the id is stored as an int32.
\<close>

fun seq_fill :: "(string \<rightharpoonup> nat) \<Rightarrow> string list \<Rightarrow> nat \<Rightarrow> int32 list \<Rightarrow> error + int32 list" where
  "seq_fill w2i [] i nvec = Inr nvec"
| "seq_fill w2i (w # ws) i nvec =
     (if i < length nvec then seq_fill w2i ws (Suc i) (nvec[i := of_nat (dict_get w2i w UNK_ID)])
      else Inl IndexError)"

definition seq_vectorize_entry ::
  "(string \<rightharpoonup> nat) \<Rightarrow> nat \<Rightarrow> (string \<rightharpoonup> nat) \<Rightarrow> string list \<times> string list \<Rightarrow>
   error + int32 list \<times> int32" where
  "seq_vectorize_entry w2i width labels e =
     (case e of (nl, ml) \<Rightarrow>
        (case labels (join ml) of
           None \<Rightarrow> Inl KeyError
         | Some mlab \<Rightarrow>
             (case seq_fill w2i nl 0 (replicate width 0) of
                Inl err \<Rightarrow> Inl err
              | Inr nvec \<Rightarrow> Inr (nvec, of_nat mlab))))"

text \<open>\<^verbatim>\<open>RNNDual.vectorize\<close>\<close>

definition rnn_vectorize ::
  "(string \<rightharpoonup> nat) \<Rightarrow> nat \<Rightarrow> (level \<Rightarrow> string \<rightharpoonup> nat) \<Rightarrow> (level \<Rightarrow> corpus) \<Rightarrow>
   error + (level \<Rightarrow> int32 list list) \<times> (level \<Rightarrow> int32 list)" where
  "rnn_vectorize w2i width labels pc =
     vectorize_levels (\<lambda>lvl. seq_vectorize_entry w2i width (labels lvl)) pc"

text \<open>\<^verbatim>\<open>max(xs)\<close> of a list of lengths: ValueError on the empty list.\<close>

definition py_max :: "nat list \<Rightarrow> error + nat" where
  "py_max xs = (case xs of [] \<Rightarrow> Inl ValueError | x # rest \<Rightarrow> Inr (fold max rest x))"

text \<open>\<^verbatim>\<open>RNNClassifier.vectorize\<close>: \<^verbatim>\<open>max(self.lengths)\<close> is evaluated inside the loop, for
  every entry.\<close>

definition clf_vectorize_entry ::
  "(string \<rightharpoonup> nat) \<Rightarrow> nat list \<Rightarrow> (string \<rightharpoonup> nat) \<Rightarrow> string list \<times> string list \<Rightarrow>
   error + int32 list \<times> int32" where
  "clf_vectorize_entry w2i lens labels e =
     (case py_max lens of
        Inl err \<Rightarrow> Inl err
      | Inr width \<Rightarrow> seq_vectorize_entry w2i width labels e)"

definition clf_vectorize ::
  "(string \<rightharpoonup> nat) \<Rightarrow> nat list \<Rightarrow> (string \<rightharpoonup> nat) \<Rightarrow> corpus \<Rightarrow>
   error + int32 list list \<times> int32 list" where
  "clf_vectorize w2i lens labels pc = vectorize_entries (clf_vectorize_entry w2i lens labels) pc"

section \<open>Example instances\<close>

text \<open>A graph whose train operation reports the loss 1 and counts the steps in the
  parameters, an untouched session, and small training sets.\<close>

definition rows :: "nat \<Rightarrow> int32 list list" where
  "rows n = replicate n [0, 0]"

definition unit_graph :: "(nat, 'b, 'f) graph" where
  "unit_graph = \<lparr>train_op = (\<lambda>k b p. (1, Suc p)), probs_op = (\<lambda>h f p. [1])\<rparr>"

definition fresh :: "(nat, 'k) session" where
  "fresh = \<lparr>params = 0, steps = [], terms = [], printed = []\<rparr>"

definition nn_example :: nn_dual where
  "nn_example = \<lparr>epochs = 2, bsz = 16, commands = (\<lambda>k. []), word2id = Map.empty,
     train_x = (\<lambda>k. case k of L0 \<Rightarrow> rows 40 | L1 \<Rightarrow> rows 16 | L2 \<Rightarrow> rows 17),
     train_y = (\<lambda>k. case k of L0 \<Rightarrow> replicate 40 0 | L1 \<Rightarrow> replicate 16 0 | L2 \<Rightarrow> replicate 17 0)\<rparr>"



definition rnn_example :: rnn_dual where
  "rnn_example = \<lparr>epochs = 2, bsz = 16, commands = (\<lambda>k. []), word2id = Map.empty,
     train_x = (\<lambda>k. case k of L0 \<Rightarrow> rows 40 | L1 \<Rightarrow> rows 16 | L2 \<Rightarrow> rows 17),
     train_y = (\<lambda>k. case k of L0 \<Rightarrow> replicate 40 0 | L1 \<Rightarrow> replicate 16 0 | L2 \<Rightarrow> replicate 17 0),
     max_len = 2,
     lengths = (\<lambda>k. case k of L0 \<Rightarrow> replicate 40 2 | L1 \<Rightarrow> replicate 16 2 | L2 \<Rightarrow> replicate 17 2)\<rparr>"

definition nn_tiny :: "int \<Rightarrow> nn_dual" where
  "nn_tiny b = \<lparr>epochs = 1, bsz = b, commands = (\<lambda>k. []), word2id = Map.empty,
     train_x = (\<lambda>k. case k of L0 \<Rightarrow> rows 4 | L1 \<Rightarrow> rows 2 | L2 \<Rightarrow> []),
     train_y = (\<lambda>k. case k of L0 \<Rightarrow> replicate 4 0 | L1 \<Rightarrow> replicate 2 0 | L2 \<Rightarrow> [])\<rparr>"

definition rnn_tiny :: "int \<Rightarrow> rnn_dual" where
  "rnn_tiny b = nn_dual.extend (nn_tiny b)
     (rnn_dual.fields 2 (\<lambda>k. case k of L0 \<Rightarrow> replicate 4 2 | L1 \<Rightarrow> replicate 2 2 | L2 \<Rightarrow> []))"

definition clf_tiny :: "int \<Rightarrow> rnn_classifier" where
  "clf_tiny b = \<lparr>clf_epochs = 1, clf_bsz = b, clf_commands = [], clf_word2id = Map.empty,
     clf_lengths = replicate 4 2, clf_train_x = rows 4, clf_train_y = replicate 4 0\<rparr>"

definition unit_clf_graph :: "(nat, 'b, 'f) clf_graph" where
  "unit_clf_graph = \<lparr>clf_train_op = (\<lambda>b p. (1, Suc p)), clf_probs_op = (\<lambda>f p. [1])\<rparr>"

section \<open>Properties\<close>

lemma nn_epochs_no_positions:
  assumes "nn_positions m cs = Inr [] \<or> (\<exists>e. nn_positions m cs = Inl e)"
  shows "snd (nn_epochs g m cs n s) = s"
  using assms by (cases n) (auto simp: nn_epoch_def)

subsection \<open>When the position list is empty\<close>

lemma int_div_le_zero: "0 < (b::int) \<Longrightarrow> a < b \<Longrightarrow> a div b \<le> 0"
  by (cases "a < 0") (simp_all add: pos_imp_zdiv_neg_iff order_less_imp_le)

lemma py_range_empty_pos: "0 < step \<Longrightarrow> stop \<le> start \<Longrightarrow> py_range start stop step = Inr []"
  by (simp add: py_range_def int_div_le_zero)

lemma py_range_empty_neg: "step < 0 \<Longrightarrow> start \<le> stop \<Longrightarrow> py_range start stop step = Inr []"
  by (simp add: py_range_def int_div_le_zero)

lemma positions_small: "0 < b \<Longrightarrow> n \<le> b \<Longrightarrow> positions n b = Inr []"
  by (simp add: positions_def py_range_empty_pos)

lemma positions_neg_bsz: "b < 0 \<Longrightarrow> 0 \<le> n \<Longrightarrow> positions n b = Inr []"
  by (simp add: positions_def py_range_empty_neg)

lemma positions_zero_bsz: "positions n 0 = Inl ValueError"
  by (simp add: positions_def py_range_def)

lemma positions_zero_chunk: "positions 0 b = Inr [] \<or> positions 0 b = Inl ValueError"
  using positions_small[of b 0] positions_neg_bsz[of b 0] positions_zero_bsz[of 0]
  by (cases "b = 0"; cases "0 < b") auto

lemma rnn_epochs_no_positions:
  assumes "rnn_positions m cs = Inr [] \<or> (\<exists>e. rnn_positions m cs = Inl e)"
  shows "snd (rnn_epochs g m cs n ls s) = s"
  using assms by (cases n) (auto simp: rnn_epoch_def)

lemma clf_epochs_no_positions:
  assumes "clf_positions m cs = Inr [] \<or> (\<exists>e. clf_positions m cs = Inl e)"
  shows "snd (clf_epochs_loop g m cs n s) = s"
  using assms by (cases n) (auto simp: clf_epoch_def)

lemma py_slice_zero: "py_slice 0 0 xs = []"
  by (simp add: py_slice_def clamp_index_def)

subsection \<open>fit with a chunk size of 0\<close>

lemma nn_positions_zero_chunk:
  "nn_positions m 0 = Inr [] \<or> (\<exists>e. nn_positions m 0 = Inl e)"
  using positions_zero_chunk[of "bsz m"] by (auto simp: nn_positions_def py_slice_zero)

lemma rnn_positions_zero_chunk:
  "rnn_positions m 0 = Inr [] \<or> (\<exists>e. rnn_positions m 0 = Inl e)"
  using positions_zero_chunk[of "bsz m"] by (auto simp: rnn_positions_def)

lemma clf_positions_zero_chunk:
  "clf_positions m 0 = Inr [] \<or> (\<exists>e. clf_positions m 0 = Inl e)"
  using positions_zero_chunk[of "clf_bsz m"] by (auto simp: clf_positions_def py_slice_zero)

text \<open>
  Claim C8.  In each of the three classes, \<^verbatim>\<open>fit(0)\<close> returns the session it was given:
  the parameters are the ones it started with and no optimiser step is added to the log
  (whatever the batch size, the epoch count and the training data are, and whether the
  call returns or raises).
\<close>

theorem fit_chunk_zero_keeps_session:
  "snd (nn_fit g m 0 s) = s \<and> params (snd (nn_fit g m 0 s)) = params s
     \<and> steps (snd (nn_fit g m 0 s)) = steps s
   \<and> snd (rnn_fit g' m' 0 s) = s \<and> params (snd (rnn_fit g' m' 0 s)) = params s
     \<and> steps (snd (rnn_fit g' m' 0 s)) = steps s
   \<and> snd (clf_fit g'' m'' 0 s') = s' \<and> params (snd (clf_fit g'' m'' 0 s')) = params s'
     \<and> steps (snd (clf_fit g'' m'' 0 s')) = steps s'"
proof -
  have nn: "snd (nn_fit g m 0 s) = s"
    unfolding nn_fit_def by (rule nn_epochs_no_positions [OF nn_positions_zero_chunk])
  have rnn: "snd (rnn_fit g' m' 0 s) = s"
    unfolding rnn_fit_def
    by (simp add: rnn_epochs_no_positions [OF rnn_positions_zero_chunk])
  have clf: "snd (clf_fit g'' m'' 0 s') = s'"
    unfolding clf_fit_def by (rule clf_epochs_no_positions [OF clf_positions_zero_chunk])
  show ?thesis by (simp add: nn rnn clf)
qed

subsection \<open>A level that holds no more rows than one batch\<close>

lemma py_range_ge_start:
  "0 < step \<Longrightarrow> py_range start stop step = Inr xs \<Longrightarrow> x \<in> set xs \<Longrightarrow> start \<le> x"
  by (auto simp: py_range_def)

lemma positions_end_ge:
  assumes "0 < b" "positions n b = Inr ps" "(st, en) \<in> set ps"
  shows "b \<le> en"
proof -
  from assms(2) obtain starts ends where
    e: "py_range b n b = Inr ends" and ps: "ps = zip starts ends"
    by (auto simp: positions_def split: sum.splits)
  from assms(3) ps have "en \<in> set ends" by (auto dest: set_zip_rightD)
  with py_range_ge_start[OF assms(1) e] show ?thesis by blast
qed

lemma steps_for_nn_level_step:
  "j \<noteq> k \<or> int (length (train_x m k)) \<le> en \<Longrightarrow>
   steps_for k (snd (nn_level_step g m j st en prev s)) = steps_for k s"
  by (auto simp: nn_level_step_def steps_for_def split: prod.splits)

lemma steps_for_terms_update [simp]: "steps_for k (s\<lparr>terms := t\<rparr>) = steps_for k s"
  by (simp add: steps_for_def)

lemma steps_for_printed_update [simp]: "steps_for k (s\<lparr>printed := t\<rparr>) = steps_for k s"
  by (simp add: steps_for_def)

lemma steps_for_nn_sweep:
  "\<forall>(st, en) \<in> set ps. int (length (train_x m k)) \<le> en \<Longrightarrow>
   steps_for k (snd (snd (nn_sweep g m ps cl b s))) = steps_for k s"
proof (induction ps arbitrary: cl b s)
  case Nil
  then show ?case by simp
next
  case (Cons p ps)
  obtain st en where p: "p = (st, en)" by (cases p)
  from Cons.prems p have en: "int (length (train_x m k)) \<le> en" by simp
  from Cons.prems have rest: "\<forall>(st, en) \<in> set ps. int (length (train_x m k)) \<le> en" by simp
  show ?case
    by (simp add: p split_beta Cons.IH[OF rest] steps_for_nn_level_step en)
qed

lemma steps_for_nn_epoch:
  assumes "0 < bsz m" "int (length (train_x m k)) \<le> bsz m"
  shows "steps_for k (snd (nn_epoch g m cs s)) = steps_for k s"
proof (cases "nn_positions m cs")
  case (Inl e)
  then show ?thesis by (simp add: nn_epoch_def)
next
  case (Inr ps)
  have "\<forall>(st, en) \<in> set ps. int (length (train_x m k)) \<le> en"
  proof (clarify)
    fix st en assume "(st, en) \<in> set ps"
    with Inr assms(1) have "bsz m \<le> en"
      unfolding nn_positions_def by (blast intro: positions_end_ge)
    with assms(2) show "int (length (train_x m k)) \<le> en" by linarith
  qed
  from steps_for_nn_sweep[OF this] show ?thesis
    by (simp add: nn_epoch_def Inr split_beta)
qed

lemma steps_for_nn_epochs:
  assumes "0 < bsz m" "int (length (train_x m k)) \<le> bsz m"
  shows "steps_for k (snd (nn_epochs g m cs n s)) = steps_for k s"
proof (induction n arbitrary: s)
  case 0
  then show ?case by simp
next
  case (Suc n)
  obtain r s' where e: "nn_epoch g m cs s = (r, s')" by (cases "nn_epoch g m cs s")
  with steps_for_nn_epoch[OF assms, of g cs s] have "steps_for k s' = steps_for k s" by simp
  with e Suc.IH[of s'] show ?case by (cases r) simp_all
qed

lemma steps_for_rnn_level_step:
  "j \<noteq> k \<or> int (length (train_x m k)) \<le> en \<Longrightarrow>
   steps_for k (snd (rnn_level_step g m j st en prev s)) = steps_for k s"
  by (auto simp: rnn_level_step_def steps_for_def split: prod.splits)

lemma steps_for_rnn_sweep:
  "\<forall>(st, en) \<in> set ps. int (length (train_x m k)) \<le> en \<Longrightarrow>
   steps_for k (snd (snd (snd (rnn_sweep g m ps ls cl b s)))) = steps_for k s"
proof (induction ps arbitrary: ls cl b s)
  case Nil
  then show ?case by simp
next
  case (Cons p ps)
  obtain st en where p: "p = (st, en)" by (cases p)
  obtain a b c where ls: "ls = (a, b, c)" by (cases ls)
  from Cons.prems p have en: "int (length (train_x m k)) \<le> en" by simp
  from Cons.prems have rest: "\<forall>(st, en) \<in> set ps. int (length (train_x m k)) \<le> en" by simp
  show ?case
    by (simp add: p ls split_beta Cons.IH[OF rest] steps_for_rnn_level_step en)
qed

lemma steps_for_rnn_epoch:
  assumes "0 < bsz m" "int (length (train_x m k)) \<le> bsz m"
  shows "steps_for k (snd (rnn_epoch g m cs ls s)) = steps_for k s"
proof (cases "rnn_positions m cs")
  case (Inl e)
  then show ?thesis by (simp add: rnn_epoch_def)
next
  case (Inr ps)
  have "\<forall>(st, en) \<in> set ps. int (length (train_x m k)) \<le> en"
  proof (clarify)
    fix st en assume "(st, en) \<in> set ps"
    with Inr assms(1) have "bsz m \<le> en"
      unfolding rnn_positions_def by (blast intro: positions_end_ge)
    with assms(2) show "int (length (train_x m k)) \<le> en" by linarith
  qed
  from steps_for_rnn_sweep[OF this] show ?thesis
    by (simp add: rnn_epoch_def Inr split_beta)
qed

lemma steps_for_rnn_epochs:
  assumes "0 < bsz m" "int (length (train_x m k)) \<le> bsz m"
  shows "steps_for k (snd (rnn_epochs g m cs n ls s)) = steps_for k s"
proof (induction n arbitrary: ls s)
  case 0
  then show ?case by simp
next
  case (Suc n)
  obtain r s' where e: "rnn_epoch g m cs ls s = (r, s')" by (cases "rnn_epoch g m cs ls s")
  with steps_for_rnn_epoch[OF assms, of g cs ls s] have "steps_for k s' = steps_for k s" by simp
  with e Suc.IH[of _ s'] show ?case by (cases r) simp_all
qed

text \<open>
  Claim C7.  With \<^verbatim>\<open>batch_size = 16\<close> and a level that holds exactly 16 training rows,
  \<^verbatim>\<open>fit\<close> adds no optimiser step of that level to the log, in \<^verbatim>\<open>NNDual\<close> and in
  \<^verbatim>\<open>RNNDual\<close>: every end index is at least 16, and the guard wants it strictly below the
  level's row count.  This holds for every chunk size, so also for those of at least 16.
\<close>

theorem fit_full_batch_level_never_stepped:
  assumes "bsz m = 16" and "length (train_x m k) = 16"
    and "bsz m' = 16" and "length (train_x m' k') = 16"
  shows "steps_for k (snd (nn_fit g m chunk_size s)) = steps_for k s
       \<and> steps_for k' (snd (rnn_fit g' m' chunk_size' s')) = steps_for k' s'"
  using assms
  by (simp add: nn_fit_def rnn_fit_def steps_for_nn_epochs steps_for_rnn_epochs)

lemma tiny_fields [simp]:
  "epochs (nn_tiny b) = 1" "bsz (nn_tiny b) = b"
  "epochs (rnn_tiny b) = 1" "bsz (rnn_tiny b) = b"
  "clf_epochs (clf_tiny b) = 1" "clf_bsz (clf_tiny b) = b"
  by (simp_all add: nn_tiny_def rnn_tiny_def clf_tiny_def nn_dual.extend_def)

text \<open>The witness of C7: level L1 has 16 rows and gets no step, while L0 and L2 do.\<close>

theorem fit_full_batch_level_never_stepped_witness:
  "bsz nn_example = 16 \<and> length (train_x nn_example L1) = 16
 \<and> bsz rnn_example = 16 \<and> length (train_x rnn_example L1) = 16
 \<and> steps_for L1 (snd (nn_fit unit_graph nn_example 40 fresh)) = []
 \<and> steps_for L1 (snd (rnn_fit unit_graph rnn_example 40 fresh)) = []
 \<and> steps (snd (nn_fit unit_graph nn_example 40 fresh)) =
     [(L0, 0, 16), (L2, 0, 16), (L0, 16, 32), (L0, 0, 16), (L2, 0, 16), (L0, 16, 32)]"
proof -
  have h: "bsz nn_example = 16" "length (train_x nn_example L1) = 16"
    "bsz rnn_example = 16" "length (train_x rnn_example L1) = 16"
    by (simp_all add: nn_example_def rnn_example_def rows_def)
  have f: "steps_for L1 (fresh :: (nat, level) session) = []"
    by (simp add: steps_for_def fresh_def)
  have e: "steps (snd (nn_fit unit_graph nn_example 40 fresh)) =
     [(L0, 0, 16), (L2, 0, 16), (L0, 16, 32), (L0, 0, 16), (L2, 0, 16), (L0, 16, 32)]"
    by code_simp
  from fit_full_batch_level_never_stepped [OF h, of unit_graph 40 fresh unit_graph 40 fresh]
  show ?thesis by (simp add: h f e)
qed

subsection \<open>An epoch that visits no position\<close>

lemma nn_epochs_empty_positions:
  "nn_positions m cs = Inr [] \<Longrightarrow> nn_epochs g m cs (Suc n) s = (Inl ZeroDivisionError, s)"
  by (simp add: nn_epoch_def)

lemma rnn_epochs_empty_positions:
  "rnn_positions m cs = Inr [] \<Longrightarrow> rnn_epochs g m cs (Suc n) ls s = (Inl ZeroDivisionError, s)"
  by (simp add: rnn_epoch_def)

lemma clf_epochs_empty_positions:
  "clf_positions m cs = Inr [] \<Longrightarrow> clf_epochs_loop g m cs (Suc n) s = (Inl ZeroDivisionError, s)"
  by (simp add: clf_epoch_def)

lemma length_py_slice_prefix: "0 \<le> c \<Longrightarrow> int (length (py_slice 0 c xs)) \<le> c"
  by (simp add: py_slice_def clamp_index_def)

lemma nat_pos_Suc: "0 < (e::int) \<Longrightarrow> \<exists>n. nat e = Suc n"
  by (cases "nat e") auto

lemma nn_fit_empty_positions:
  assumes "0 < epochs m" "nn_positions m cs = Inr []"
  shows "nn_fit g m cs s = (Inl ZeroDivisionError, s)"
proof -
  from assms(1) obtain n where "nat (epochs m) = Suc n" by (cases "nat (epochs m)") auto
  then show ?thesis by (simp only: nn_fit_def nn_epochs_empty_positions[OF assms(2)])
qed

lemma rnn_fit_empty_positions:
  assumes "0 < epochs m" "0 \<le> bsz m" "rnn_positions m cs = Inr []"
  shows "rnn_fit g m cs s = (Inl ZeroDivisionError, s)"
proof -
  from assms(1) obtain n where "nat (epochs m) = Suc n" by (cases "nat (epochs m)") auto
  with assms(2) show ?thesis
    by (simp add: rnn_fit_def rnn_epochs_empty_positions[OF assms(3)] del: rnn_epochs.simps)
qed

lemma clf_fit_empty_positions:
  assumes "0 < clf_epochs m" "clf_positions m cs = Inr []"
  shows "clf_fit g m cs s = (Inl ZeroDivisionError, s)"
proof -
  from assms(1) obtain n where "nat (clf_epochs m) = Suc n" by (cases "nat (clf_epochs m)") auto
  then show ?thesis by (simp only: clf_fit_def clf_epochs_empty_positions[OF assms(2)])
qed

lemma nn_positions_small_chunk:
  assumes "0 < bsz m" "0 \<le> cs" "cs \<le> bsz m"
  shows "nn_positions m cs = Inr []"
  unfolding nn_positions_def
  using assms length_py_slice_prefix[of cs "train_x m L0"] by (intro positions_small) auto

lemma clf_positions_small_chunk:
  assumes "0 < clf_bsz m" "0 \<le> cs" "cs \<le> clf_bsz m"
  shows "clf_positions m cs = Inr []"
  unfolding clf_positions_def
  using assms length_py_slice_prefix[of cs "clf_train_x m"] by (intro positions_small) auto

text \<open>
  Claim C10, as amended.  In each class, a call to \<^verbatim>\<open>fit\<close> with at least one epoch
  whose list of minibatch positions is empty runs no optimiser step and raises
  ZeroDivisionError at the first epoch's average (in \<^verbatim>\<open>RNNDual\<close> the batch size must not
  be negative, or the first line raises).  The list is empty whenever the batch size is
  positive and \<open>0 \<le> chunk_size \<le> batch_size\<close>; in \<^verbatim>\<open>RNNDual\<close> a negative chunk size is
  covered too.
\<close>

theorem fit_no_positions_zero_division:
  "(0 < epochs m \<and> nn_positions m cs = Inr [] \<longrightarrow> nn_fit g m cs s = (Inl ZeroDivisionError, s))
 \<and> (0 < bsz m \<and> 0 \<le> cs \<and> cs \<le> bsz m \<longrightarrow> nn_positions m cs = Inr [])
 \<and> (0 < epochs m' \<and> 0 \<le> bsz m' \<and> rnn_positions m' cs' = Inr []
       \<longrightarrow> rnn_fit g' m' cs' s = (Inl ZeroDivisionError, s))
 \<and> (0 < bsz m' \<and> cs' \<le> bsz m' \<longrightarrow> rnn_positions m' cs' = Inr [])
 \<and> (0 < clf_epochs m'' \<and> clf_positions m'' cs'' = Inr []
       \<longrightarrow> clf_fit g'' m'' cs'' s'' = (Inl ZeroDivisionError, s''))
 \<and> (0 < clf_bsz m'' \<and> 0 \<le> cs'' \<and> cs'' \<le> clf_bsz m'' \<longrightarrow> clf_positions m'' cs'' = Inr [])"
  by (simp add: nn_fit_empty_positions rnn_fit_empty_positions clf_fit_empty_positions
      nn_positions_small_chunk clf_positions_small_chunk rnn_positions_def positions_small)

theorem fit_no_positions_zero_division_witness:
  "nn_fit unit_graph (nn_tiny 4) 4 fresh = (Inl ZeroDivisionError, fresh)
 \<and> nn_positions (nn_tiny 4) 4 = Inr []
 \<and> rnn_fit unit_graph (rnn_tiny 4) (-2) fresh = (Inl ZeroDivisionError, fresh)
 \<and> rnn_positions (rnn_tiny 4) (-2) = Inr []
 \<and> clf_fit unit_clf_graph (clf_tiny 4) 3 fresh = (Inl ZeroDivisionError, fresh)
 \<and> clf_positions (clf_tiny 4) 3 = Inr []"
  using fit_no_positions_zero_division [of "nn_tiny 4" 4 unit_graph fresh "rnn_tiny 4" "-2"
      unit_graph "clf_tiny 4" 3 unit_clf_graph fresh]
  by auto

text \<open>
  The claim as first stated fails.  A chunk size of -1 is at most the batch size 1, but
  \<^verbatim>\<open>train_x[:-1]\<close> then holds all rows but the last: \<^verbatim>\<open>NNDual.fit\<close> and
  \<^verbatim>\<open>RNNClassifier.fit\<close> run optimiser steps and return.  With a batch size of 0 the
  range raises ValueError, not ZeroDivisionError.
\<close>

theorem fit_small_chunk_counterexample:
  "nn_fit unit_graph (nn_tiny 1) (- 1) fresh =
     (Inr (), \<lparr>params = 3, steps = [(L0, 0, 1), (L1, 0, 1), (L0, 1, 2)],
               terms = [(1, [1, 1, 0]), (2, [1, 0, 0])], printed = [3 / 2]\<rparr>)
 \<and> nn_fit unit_graph (nn_tiny 0) 0 fresh = (Inl ValueError, fresh)
 \<and> rnn_fit unit_graph (rnn_tiny 0) 0 fresh = (Inl ValueError, fresh)
 \<and> clf_fit unit_clf_graph (clf_tiny 1) (- 1) fresh =
     (Inr (), \<lparr>params = 2, steps = [((), 0, 1), ((), 1, 2)],
               terms = [(1, [1]), (2, [1])], printed = [1]\<rparr>)"
  by code_simp

subsection \<open>The loss terms of a level whose data has run out\<close>

lemma nn_level_step_terms [simp]: "terms (snd (nn_level_step g m k st en prev s)) = terms s"
  by (simp add: nn_level_step_def split_beta)

lemma nn_level_step_exhausted:
  "int (length (train_x m k)) \<le> en \<Longrightarrow> fst (nn_level_step g m k st en 0 s) = 0"
  by (simp add: nn_level_step_def)

lemma nn_sweep_exhausted_terms_zero:
  "exhausted_terms_zero m (terms s) \<Longrightarrow>
   exhausted_terms_zero m (terms (snd (snd (nn_sweep g m ps cl b s))))"
proof (induction ps arbitrary: cl b s)
  case Nil
  then show ?case by simp
next
  case (Cons p ps)
  obtain st en where p: "p = (st, en)" by (cases p)
  define s0 where "s0 = snd (nn_level_step g m L0 st en 0 s)"
  define s1 where "s1 = snd (nn_level_step g m L1 st en 0 s0)"
  define s2 where "s2 = snd (nn_level_step g m L2 st en 0 s1)"
  define l0 where "l0 = fst (nn_level_step g m L0 st en 0 s)"
  define l1 where "l1 = fst (nn_level_step g m L1 st en 0 s0)"
  define l2 where "l2 = fst (nn_level_step g m L2 st en 0 s1)"
  have t: "terms s2 = terms s" by (simp add: s2_def s1_def s0_def)
  have row: "\<forall>k. int (length (train_x m k)) \<le> en \<longrightarrow> loss_term k [l0, l1, l2] = 0"
  proof (intro allI impI)
    fix k assume "int (length (train_x m k)) \<le> en"
    then show "loss_term k [l0, l1, l2] = 0"
      by (cases k) (simp_all add: l0_def l1_def l2_def nn_level_step_exhausted)
  qed
  have "exhausted_terms_zero m (terms (s2\<lparr>terms := terms s2 @ [(en, [l0, l1, l2])]\<rparr>))"
    using Cons.prems row by (auto simp: exhausted_terms_zero_def t)
  from Cons.IH[OF this] show ?case
    by (simp add: p split_beta s0_def s1_def s2_def l0_def l1_def l2_def)
qed

lemma nn_epochs_exhausted_terms_zero:
  "exhausted_terms_zero m (terms s) \<Longrightarrow>
   exhausted_terms_zero m (terms (snd (nn_epochs g m cs n s)))"
proof (induction n arbitrary: s)
  case 0
  then show ?case by simp
next
  case (Suc n)
  obtain r s' where e: "nn_epoch g m cs s = (r, s')" by (cases "nn_epoch g m cs s")
  have s': "exhausted_terms_zero m (terms s')"
  proof (cases "nn_positions m cs")
    case (Inl x)
    with e Suc.prems show ?thesis by (auto simp: nn_epoch_def)
  next
    case (Inr ps)
    with e nn_sweep_exhausted_terms_zero[OF Suc.prems, of g ps 0 0] show ?thesis
      by (auto simp: nn_epoch_def split_beta split: if_splits)
  qed
  from Suc.IH[OF s'] s' e show ?case by (cases r) simp_all
qed

lemma nn_fit_exhausted_terms_zero:
  "exhausted_terms_zero m (terms (snd (nn_fit g m cs (s\<lparr>terms := []\<rparr>))))"
  unfolding nn_fit_def
  by (rule nn_epochs_exhausted_terms_zero) (simp add: exhausted_terms_zero_def)

text \<open>
  Claim C1 holds for \<^verbatim>\<open>NNDual.fit\<close> (lemma \<open>nn_fit_exhausted_terms_zero\<close>) and fails
  for \<^verbatim>\<open>RNNDual.fit\<close>.  On the same data (batch size 1, one epoch, four rows of L0, two
  rows of L1, chunk size 4) level L1 has run out at the positions with end index 2 and 3.
  \<^verbatim>\<open>NNDual.fit\<close> adds 0 for L1 there.  \<^verbatim>\<open>RNNDual.fit\<close> adds the loss of L1's last
  step again, since it assigns 0 to the loss variables before the epoch loop only; the
  printed average is 2 instead of 4/3.
\<close>

theorem rnn_fit_exhausted_level_keeps_stale_loss:
  "length (train_x (rnn_tiny 1) L1) = 2
 \<and> terms (snd (rnn_fit unit_graph (rnn_tiny 1) 4 fresh)) =
     [(1, [1, 1, 0]), (2, [1, 1, 0]), (3, [1, 1, 0])]
 \<and> printed (snd (rnn_fit unit_graph (rnn_tiny 1) 4 fresh)) = [2]
 \<and> terms (snd (nn_fit unit_graph (nn_tiny 1) 4 fresh)) =
     [(1, [1, 1, 0]), (2, [1, 0, 0]), (3, [1, 0, 0])]
 \<and> printed (snd (nn_fit unit_graph (nn_tiny 1) 4 fresh)) = [4 / 3]"
  by code_simp


end
